theory Spec2Isabelle
  imports Complex_Main
begin

section \<open>The layout sizer: \<open>calculateDynamicPageSize\<close> (Dashboard.tsx, lines 219-231)\<close>

text \<open>
  The callback takes no argument. It reads two refs of the component, \<open>gridRef\<close> (the
  mounted grid, whose \<open>api\<close> exists once the grid is ready) and \<open>containerRef\<close> (the
  \<open>div\<close> around the grid), writes one line to the console and computes a local
  \<open>newPageSize\<close> that it neither returns nor stores.

  Pixel measurements are integers: \<open>clientHeight\<close> is an integer by the DOM, and the
  theme's row height is a pixel count. A JavaScript number holds every integer below
  \<open>2 ^ 53\<close> exactly and its division is correctly rounded, so for such operands
  \<open>Math.floor(a / r)\<close> is the floor of the exact quotient. A measurement that is
  \<open>undefined\<close> (or \<open>NaN\<close>) is \<open>None\<close>: both are falsy for \<open>||\<close>.
\<close>

record grid_api =
  sizes_rowHeight :: "int option"  \<comment> \<open>\<open>api.getSizesForCurrentTheme().rowHeight\<close>\<close>
  pagination_pageSize :: int  \<comment> \<open>the page size the pagination control is using\<close>

record ag_grid_react =
  api :: "grid_api option"  \<comment> \<open>\<open>None\<close> until the grid is ready\<close>

record html_div_element =
  clientHeight :: int

record 'row dashboard =
  rowData :: "'row list"  \<comment> \<open>\<open>useState(data.employees)\<close>\<close>
  gridRef :: "ag_grid_react option"  \<comment> \<open>\<open>gridRef.current\<close>, \<open>None\<close> for \<open>null\<close>\<close>
  containerRef :: "html_div_element option"  \<comment> \<open>\<open>containerRef.current\<close>\<close>

text \<open>\<open>gridRef.current?.api\<close> and \<open>containerRef.current?.clientHeight\<close>: optional chaining
  gives \<open>undefined\<close> when the ref is empty.\<close>

definition current_api :: "'row dashboard \<Rightarrow> grid_api option" where
  "current_api d = (case gridRef d of None \<Rightarrow> None | Some g \<Rightarrow> api g)"

definition current_clientHeight :: "'row dashboard \<Rightarrow> int option" where
  "current_clientHeight d = (case containerRef d of None \<Rightarrow> None | Some c \<Rightarrow> Some (clientHeight c))"

text \<open>\<open>v || dflt\<close> on a number that may be missing: \<open>undefined\<close>, \<open>NaN\<close> and \<open>0\<close> are
  falsy and give the default.\<close>

definition or_default :: "int option \<Rightarrow> int \<Rightarrow> int" where
  "or_default v dflt = (case v of None \<Rightarrow> dflt | Some n \<Rightarrow> if n = 0 then dflt else n)"

text \<open>The result of JavaScript arithmetic: dividing by zero does not throw, it gives an
  infinity or \<open>NaN\<close>, and \<open>Math.floor\<close> and \<open>Math.max\<close> pass those on.\<close>

datatype js_number = Num int | PosInfinity | NegInfinity | NaN

definition Math_floor_div :: "int \<Rightarrow> int \<Rightarrow> js_number" where
  \<comment> \<open>\<open>Math.floor(a / r)\<close>\<close>
  "Math_floor_div a r =
     (if r = 0 then (if a = 0 then NaN else if 0 < a then PosInfinity else NegInfinity)
      else Num \<lfloor>rat_of_int a / rat_of_int r\<rfloor>)"

fun Math_max :: "int \<Rightarrow> js_number \<Rightarrow> js_number" where
  "Math_max m (Num n) = Num (max m n)"
| "Math_max m PosInfinity = PosInfinity"
| "Math_max m NegInfinity = Num m"
| "Math_max m NaN = NaN"

datatype console_line = Grid_API_available grid_api | Grid_API_not_available_yet

record page_size_locals =
  containerHeight :: int
  rowHeight :: int
  headerHeight :: int
  availableHeight :: int
  newPageSize :: js_number

record 'row outcome =
  console :: "console_line list"  \<comment> \<open>what \<open>console.log\<close> printed\<close>
  computed :: "page_size_locals option"  \<comment> \<open>the locals of the first branch, \<open>None\<close> when it did not run\<close>
  dashboard_after :: "'row dashboard"  \<comment> \<open>the component after the call\<close>

definition calculateDynamicPageSize :: "'row dashboard \<Rightarrow> 'row outcome" where
  "calculateDynamicPageSize d =
     (case current_api d of
        Some a \<Rightarrow>
          (let containerHeight = or_default (current_clientHeight d) 400;
               rowHeight = or_default (sizes_rowHeight a) 30;
               headerHeight = 50;
               availableHeight = containerHeight - headerHeight;
               newPageSize = Math_max 1 (Math_floor_div availableHeight rowHeight)
           in \<lparr>console = [Grid_API_available a],
               computed = Some \<lparr>containerHeight = containerHeight, rowHeight = rowHeight,
                 headerHeight = headerHeight, availableHeight = availableHeight,
                 newPageSize = newPageSize\<rparr>,
               dashboard_after = d\<rparr>)
      | None \<Rightarrow>
          \<lparr>console = [Grid_API_not_available_yet], computed = None, dashboard_after = d\<rparr>)"

text \<open>The props the component passes to the grid on every render (lines 244-257): the
  page size is the literal \<open>10\<close>, whatever the component's state.\<close>

record 'row ag_grid_props =
  prop_rowData :: "'row list"
  prop_pagination :: bool
  prop_paginationPageSize :: int
  prop_paginationPageSizeSelector :: "int list"

definition AgGridReact_props :: "'row dashboard \<Rightarrow> 'row ag_grid_props" where
  "AgGridReact_props d =
     \<lparr>prop_rowData = rowData d, prop_pagination = True, prop_paginationPageSize = 10,
       prop_paginationPageSizeSelector = [10, 20, 50, 100]\<rparr>"

section \<open>The cell renderers (Dashboard.tsx, lines 37-76)\<close>

text \<open>
  A renderer returns \<open>span\<close> elements. An element is its class, its \<open>title\<close> attribute
  when it has one, and its children, which are all text here (one string for each JSX
  text or expression child). A string is a list of characters, one for each UTF-16 code
  unit that \<open>length\<close> and \<open>substring\<close> count.
\<close>

record span =
  className :: string
  title :: "string option"
  children :: "string list"

definition textContent :: "span \<Rightarrow> string" where
  "textContent e = concat (children e)"

definition IsActiveCellRenderer :: "bool \<Rightarrow> span" where
  "IsActiveCellRenderer v =
     \<lparr>className = ''px-2 py-1 rounded-full text-sm '' @
         (if v then ''bg-green-100 text-green-800'' else ''bg-red-100 text-red-800''),
       title = None,
       children = [if v then ''Active'' else ''Inactive'']\<rparr>"

text \<open>The decimal digits of a count, as JavaScript prints a non-negative integer.\<close>

fun string_of_nat :: "nat \<Rightarrow> string" where
  "string_of_nat n =
     (if n < 10 then [''0123456789'' ! n]
      else string_of_nat (n div 10) @ [''0123456789'' ! (n mod 10)])"

text \<open>Reading decimal digits back, to say what \<open>string_of_nat\<close> prints.\<close>

definition nat_of_digits :: "string \<Rightarrow> nat" where
  "nat_of_digits s = foldl (\<lambda>acc c. 10 * acc + (of_char c - 48)) 0 s"

text \<open>The \<open>value\<close> of a skills cell: the renderer asks \<open>Array.isArray\<close>, so a value that is
  no array (\<open>undefined\<close>, \<open>null\<close>, a string) is part of its input.\<close>

datatype skills_value = NotArray | Array "string list"

definition maxTags :: nat where
  "maxTags = 3"

definition skill_tag :: "string \<Rightarrow> span" where
  \<comment> \<open>the \<open>span\<close> of one skill (lines 53-60); its second child is the \<open>{" "}\<close> after the label\<close>
  "skill_tag skill =
     \<lparr>className = ''bg-blue-100 text-blue-800 text-xs px-2 py-1 rounded truncate'',
       title = Some skill,
       children = [if length skill > 15 then take 15 skill @ ''...'' else skill, '' '']\<rparr>"

definition no_skills :: span where
  "no_skills = \<lparr>className = [], title = None, children = [''No skills'']\<rparr>"

definition more_tag :: "nat \<Rightarrow> span" where
  \<comment> \<open>\<open>+{value.length - maxTags} more\<close> (lines 66-68)\<close>
  "more_tag n =
     \<lparr>className = ''text-gray-500 text-xs'', title = None,
       children = [''+'', string_of_nat n, '' more'']\<rparr>"

definition SkillsCellRenderer :: "skills_value \<Rightarrow> span list" where
  \<comment> \<open>the children of the renderer's \<open>div\<close>, in order; a \<open>false\<close> child renders nothing\<close>
  "SkillsCellRenderer v =
     (case v of
        Array xs \<Rightarrow> if length xs > 0 then map skill_tag (take maxTags xs) else [no_skills]
      | NotArray \<Rightarrow> [no_skills])
     @ (case v of
          Array xs \<Rightarrow> if length xs > maxTags then [more_tag (length xs - maxTags)] else []
        | NotArray \<Rightarrow> [])"

definition ManagerCellRenderer :: "string option \<Rightarrow> span" where
  \<comment> \<open>\<open>value: string | null\<close>, \<open>None\<close> for \<open>null\<close>\<close>
  "ManagerCellRenderer v =
     \<lparr>className = ''text-gray-800'', title = None,
       children = [case v of Some s \<Rightarrow> s | None \<Rightarrow> ''None'']\<rparr>"

section \<open>The value formatters of the column definitions (Dashboard.tsx, lines 119-187)\<close>

definition isActive_valueFormatter :: "bool \<Rightarrow> string" where
  "isActive_valueFormatter v = (if v then ''Active'' else ''Inactive'')"

definition manager_valueFormatter :: "string option \<Rightarrow> string" where
  "manager_valueFormatter v = (case v of Some s \<Rightarrow> s | None \<Rightarrow> ''None'')"

text \<open>
  The salary and rating formatters call a method on \<open>params.value\<close> without looking at
  its type, so their behaviour on every kind of value is the language's: a property read
  on \<open>undefined\<close> or \<open>null\<close> throws a \<open>TypeError\<close>, and so does calling a method the
  value does not have. What a number's \<open>toLocaleString()\<close> and \<open>toFixed(1)\<close> print is
  the host's business (locale, floating point): both are parameters, over any type
  \<open>'n\<close> of numbers.
\<close>

datatype 'n js_value = JSUndefined | JSNull | JSBoolean bool | JSNumber 'n | JSString string

datatype js_error = TypeError

fun toLocaleString :: "('n \<Rightarrow> string) \<Rightarrow> 'n js_value \<Rightarrow> js_error + string" where
  \<comment> \<open>\<open>v.toLocaleString()\<close>; on a boolean or a string it is \<open>Object.prototype.toLocaleString\<close>,
     which calls \<open>toString\<close>\<close>
  "toLocaleString num_toLocaleString JSUndefined = Inl TypeError"
| "toLocaleString num_toLocaleString JSNull = Inl TypeError"
| "toLocaleString num_toLocaleString (JSBoolean b) = Inr (if b then ''true'' else ''false'')"
| "toLocaleString num_toLocaleString (JSNumber n) = Inr (num_toLocaleString n)"
| "toLocaleString num_toLocaleString (JSString s) = Inr s"

fun toFixed1 :: "('n \<Rightarrow> string) \<Rightarrow> 'n js_value \<Rightarrow> js_error + string" where
  \<comment> \<open>\<open>v.toFixed(1)\<close>; only numbers have the method\<close>
  "toFixed1 num_toFixed1 (JSNumber n) = Inr (num_toFixed1 n)"
| "toFixed1 num_toFixed1 JSUndefined = Inl TypeError"
| "toFixed1 num_toFixed1 JSNull = Inl TypeError"
| "toFixed1 num_toFixed1 (JSBoolean b) = Inl TypeError"
| "toFixed1 num_toFixed1 (JSString s) = Inl TypeError"

definition salary_valueFormatter :: "('n \<Rightarrow> string) \<Rightarrow> 'n js_value \<Rightarrow> js_error + string" where
  "salary_valueFormatter num_toLocaleString v =
     (case toLocaleString num_toLocaleString v of
        Inl e \<Rightarrow> Inl e
      | Inr s \<Rightarrow> Inr (''$'' @ s))"

definition performanceRating_valueFormatter :: "('n \<Rightarrow> string) \<Rightarrow> 'n js_value \<Rightarrow> js_error + string" where
  "performanceRating_valueFormatter num_toFixed1 v = toFixed1 num_toFixed1 v"

text \<open>
  \<open>new Date(s)\<close> on a string parses it with the host's parser; a string it cannot parse
  gives a date whose time value is \<open>NaN\<close> (\<open>None\<close> here), and the constructor does not
  throw. \<open>toLocaleDateString()\<close> of such a date is the string \<open>Invalid Date\<close>; of any
  other date it is the host's rendering in its locale. Parser and rendering are
  parameters, over any type \<open>'t\<close> of time values.
\<close>

definition new_Date :: "(string \<Rightarrow> 't option) \<Rightarrow> string \<Rightarrow> 't option" where
  "new_Date date_parse s = date_parse s"

definition toLocaleDateString :: "('t \<Rightarrow> string) \<Rightarrow> 't option \<Rightarrow> string" where
  "toLocaleDateString date_format d = (case d of None \<Rightarrow> ''Invalid Date'' | Some t \<Rightarrow> date_format t)"

definition hireDate_valueFormatter :: "(string \<Rightarrow> 't option) \<Rightarrow> ('t \<Rightarrow> string) \<Rightarrow> string \<Rightarrow> string" where
  "hireDate_valueFormatter date_parse date_format v =
     toLocaleDateString date_format (new_Date date_parse v)"

subsection \<open>A host for the examples\<close>

text \<open>
  The formatters above are functions of the host's number and date rendering. To run
  them on concrete values the examples below use one small host, which is not part of
  the repository: numbers are naturals, \<open>toLocaleString\<close> prints their digits with no
  grouping (\<open>string_of_nat\<close>), \<open>toFixed(1)\<close> adds \<open>.0\<close>, and the date parser knows
  one date, rendered month/day/year.
\<close>

definition example_toFixed1 :: "nat \<Rightarrow> string" where
  "example_toFixed1 n = string_of_nat n @ ''.0''"

definition example_date_parse :: "string \<Rightarrow> (nat \<times> nat \<times> nat) option" where
  "example_date_parse = [''2021-03-15'' \<mapsto> (2021, 3, 15)]"

definition example_date_format :: "nat \<times> nat \<times> nat \<Rightarrow> string" where
  "example_date_format t =
     (case t of (y, m, d) \<Rightarrow> string_of_nat m @ ''/'' @ string_of_nat d @ ''/'' @ string_of_nat y)"

section \<open>Helper facts\<close>

lemma Math_floor_div_nonzero: "r \<noteq> 0 \<Longrightarrow> Math_floor_div a r = Num (a div r)"
  by (simp add: Math_floor_div_def floor_divide_of_int_eq)

lemma or_default_nonzero: "dflt \<noteq> 0 \<Longrightarrow> or_default v dflt \<noteq> 0"
  by (simp add: or_default_def split: option.splits)

lemma computed_available:
  assumes "current_api d = Some a"
  shows "computed (calculateDynamicPageSize d) =
    Some \<lparr>containerHeight = or_default (current_clientHeight d) 400,
      rowHeight = or_default (sizes_rowHeight a) 30,
      headerHeight = 50,
      availableHeight = or_default (current_clientHeight d) 400 - 50,
      newPageSize = Num (max 1 ((or_default (current_clientHeight d) 400 - 50)
                                  div or_default (sizes_rowHeight a) 30))\<rparr>"
proof -
  have "or_default (sizes_rowHeight a) 30 \<noteq> 0"
    by (rule or_default_nonzero) simp
  then show ?thesis
    using assms by (simp add: calculateDynamicPageSize_def Let_def Math_floor_div_nonzero)
qed

lemma computed_unavailable:
  "current_api d = None \<Longrightarrow> computed (calculateDynamicPageSize d) = None"
  by (simp add: calculateDynamicPageSize_def)

lemma digit_value: "k < 10 \<Longrightarrow> of_char (''0123456789'' ! k) = (48::nat) + k"
proof -
  assume "k < 10"
  then have "k \<in> {0, 1, 2, 3, 4, 5, 6, 7, 8, 9}" by auto
  then show ?thesis by auto
qed

lemma nat_of_digits_snoc: "nat_of_digits (s @ [c]) = 10 * nat_of_digits s + (of_char c - 48)"
  by (simp add: nat_of_digits_def)

text \<open>\<open>string_of_nat\<close> prints the number it is given: reading its digits gives it back.\<close>

lemma nat_of_digits_string_of_nat: "nat_of_digits (string_of_nat n) = n"
proof (induction n rule: string_of_nat.induct)
  case (1 n)
  show ?case
  proof (cases "n < 10")
    case True
    then show ?thesis by (simp add: nat_of_digits_def digit_value)
  next
    case False
    then have "nat_of_digits (string_of_nat n) =
        10 * nat_of_digits (string_of_nat (n div 10)) + (of_char (''0123456789'' ! (n mod 10)) - 48)"
      by (subst string_of_nat.simps) (simp add: nat_of_digits_snoc)
    also have "\<dots> = 10 * (n div 10) + n mod 10"
      using 1 False by (simp add: digit_value del: string_of_nat.simps)
    finally show ?thesis by simp
  qed
qed

section \<open>The layout sizer\<close>

text \<open>
  C1. With the grid ready, a measured container height \<open>h > 0\<close> and a reported row
  height \<open>r > 0\<close>, the callback computes \<open>max(1, floor((h - hdr) / r))\<close>, where the
  header height \<open>hdr\<close> is the callback's constant 50. The result is 1 whenever
  \<open>h \<le> hdr\<close> or the quotient is at most 1, and it is never less than 1.
\<close>

theorem calculateDynamicPageSize_formula:
  assumes "0 < h" and "0 < r"
    and "current_api d = Some a"
    and "current_clientHeight d = Some h"
    and "sizes_rowHeight a = Some r"
  shows "computed (calculateDynamicPageSize d) =
           Some \<lparr>containerHeight = h, rowHeight = r, headerHeight = 50, availableHeight = h - 50,
             newPageSize = Num (max 1 \<lfloor>(rat_of_int h - 50) / rat_of_int r\<rfloor>)\<rparr>
       \<and> (h \<le> 50 \<or> (rat_of_int h - 50) / rat_of_int r \<le> 1 \<longrightarrow>
            map_option newPageSize (computed (calculateDynamicPageSize d)) = Some (Num 1))
       \<and> (\<exists>n. 1 \<le> n \<and> map_option newPageSize (computed (calculateDynamicPageSize d)) = Some (Num n))"
proof -
  let ?q = "(rat_of_int h - 50) / rat_of_int r"
  have l: "computed (calculateDynamicPageSize d) =
           Some \<lparr>containerHeight = h, rowHeight = r, headerHeight = 50, availableHeight = h - 50,
             newPageSize = Num (max 1 \<lfloor>?q\<rfloor>)\<rparr>"
    using assms by (simp add: calculateDynamicPageSize_def or_default_def Math_floor_div_def)
  have small: "\<lfloor>?q\<rfloor> \<le> 1" if "h \<le> 50 \<or> ?q \<le> 1"
  proof -
    have "?q \<le> 1"
      using that
    proof
      assume "h \<le> 50"
      then have "rat_of_int h - 50 \<le> 0" by simp
      then have "?q \<le> 0"
        using \<open>0 < r\<close> by (simp add: divide_le_0_iff)
      then show ?thesis by simp
    qed
    then have "\<lfloor>?q\<rfloor> \<le> \<lfloor>1::rat\<rfloor>"
      by (rule floor_mono)
    then show ?thesis by simp
  qed
  have "\<exists>n. 1 \<le> n \<and> map_option newPageSize (computed (calculateDynamicPageSize d)) = Some (Num n)"
    by (simp add: l)
  with l small show ?thesis
    by simp
qed

theorem calculateDynamicPageSize_formula_witness:
  "map_option newPageSize (computed (calculateDynamicPageSize
      \<lparr>rowData = ([]::unit list), gridRef = Some \<lparr>api = Some \<lparr>sizes_rowHeight = Some 40, pagination_pageSize = 10\<rparr>\<rparr>,
        containerRef = Some \<lparr>clientHeight = 500\<rparr>\<rparr>)) = Some (Num 11)
   \<and> map_option newPageSize (computed (calculateDynamicPageSize
      \<lparr>rowData = ([]::unit list), gridRef = Some \<lparr>api = Some \<lparr>sizes_rowHeight = Some 40, pagination_pageSize = 10\<rparr>\<rparr>,
        containerRef = Some \<lparr>clientHeight = 60\<rparr>\<rparr>)) = Some (Num 1)"
proof -
  let ?a = "\<lparr>sizes_rowHeight = Some 40, pagination_pageSize = 10\<rparr>"
  let ?d = "\<lambda>h. \<lparr>rowData = ([]::unit list), gridRef = Some \<lparr>api = Some ?a\<rparr>,
        containerRef = Some \<lparr>clientHeight = h\<rparr>\<rparr>"
  have api: "current_api (?d h) = Some ?a" for h
    by (simp add: current_api_def)
  have ch: "current_clientHeight (?d h) = Some h" for h
    by (simp add: current_clientHeight_def)
  have q: "\<lfloor>(45::rat) / 4\<rfloor> = 11"
    by (simp add: floor_eq_iff)
  have big: "map_option newPageSize (computed (calculateDynamicPageSize (?d 500))) = Some (Num 11)"
    using calculateDynamicPageSize_formula [of 500 40 "?d 500" ?a, OF _ _ api ch]
    by (auto simp: q)
  have small: "map_option newPageSize (computed (calculateDynamicPageSize (?d 60))) = Some (Num 1)"
    using calculateDynamicPageSize_formula [of 60 40 "?d 60" ?a, OF _ _ api ch]
    by auto
  from big small show ?thesis by simp
qed

text \<open>
  C2. The callback changes nothing: the component after the call is the component before
  it, so the page size the pagination control is using and the props the next render
  passes to the grid are the same, and the \<open>paginationPageSize\<close> prop is 10.
\<close>

theorem calculateDynamicPageSize_frame:
  "dashboard_after (calculateDynamicPageSize d) = d
   \<and> map_option pagination_pageSize (current_api (dashboard_after (calculateDynamicPageSize d))) =
       map_option pagination_pageSize (current_api d)
   \<and> AgGridReact_props (dashboard_after (calculateDynamicPageSize d)) = AgGridReact_props d
   \<and> prop_paginationPageSize (AgGridReact_props (dashboard_after (calculateDynamicPageSize d))) = 10"
proof -
  have "dashboard_after (calculateDynamicPageSize d) = d"
    by (simp add: calculateDynamicPageSize_def Let_def split: option.split)
  then show ?thesis
    by (simp add: AgGridReact_props_def)
qed

text \<open>
  C9. The computation is a function of what it reads: two calls, on any two components,
  that find the grid in the same state of readiness and read the same container height
  and the same row height compute the same locals (the header height is the constant
  50). In particular a second call after a first one computes what the first did.
\<close>

theorem calculateDynamicPageSize_deterministic:
  assumes "map_option sizes_rowHeight (current_api d1) = map_option sizes_rowHeight (current_api d2)"
    and "current_clientHeight d1 = current_clientHeight d2"
  shows "computed (calculateDynamicPageSize d1) = computed (calculateDynamicPageSize d2)
       \<and> calculateDynamicPageSize (dashboard_after (calculateDynamicPageSize d1)) =
           calculateDynamicPageSize d1"
proof -
  have same: "computed (calculateDynamicPageSize d1) = computed (calculateDynamicPageSize d2)"
  proof (cases "current_api d1")
    case None
    with assms(1) have "current_api d2 = None" by simp
    with None show ?thesis by (simp add: computed_unavailable)
  next
    case (Some a1)
    with assms(1) obtain a2 where a2: "current_api d2 = Some a2"
      and rows: "sizes_rowHeight a1 = sizes_rowHeight a2"
      by (cases "current_api d2") auto
    show ?thesis
      by (simp add: computed_available [OF Some] computed_available [OF a2] rows assms(2))
  qed
  have "dashboard_after (calculateDynamicPageSize d1) = d1"
    by (simp add: calculateDynamicPageSize_def Let_def split: option.split)
  with same show ?thesis by simp
qed

theorem calculateDynamicPageSize_deterministic_witness:
  "computed (calculateDynamicPageSize
      \<lparr>rowData = [1::nat, 2], gridRef = Some \<lparr>api = Some \<lparr>sizes_rowHeight = Some 40, pagination_pageSize = 10\<rparr>\<rparr>,
        containerRef = Some \<lparr>clientHeight = 500\<rparr>\<rparr>) =
   computed (calculateDynamicPageSize
      \<lparr>rowData = [True], gridRef = Some \<lparr>api = Some \<lparr>sizes_rowHeight = Some 40, pagination_pageSize = 50\<rparr>\<rparr>,
        containerRef = Some \<lparr>clientHeight = 500\<rparr>\<rparr>)"
  using calculateDynamicPageSize_deterministic
    [of "\<lparr>rowData = [1::nat, 2], gridRef = Some \<lparr>api = Some \<lparr>sizes_rowHeight = Some 40, pagination_pageSize = 10\<rparr>\<rparr>,
        containerRef = Some \<lparr>clientHeight = 500\<rparr>\<rparr>"
        "\<lparr>rowData = [True], gridRef = Some \<lparr>api = Some \<lparr>sizes_rowHeight = Some 40, pagination_pageSize = 50\<rparr>\<rparr>,
        containerRef = Some \<lparr>clientHeight = 500\<rparr>\<rparr>"]
  by (simp add: current_api_def current_clientHeight_def)

text \<open>
  C10. The division is safe in every state of the environment. With no grid API the
  callback computes nothing. With the API, a container height that is missing or 0
  becomes 400 and a row height that is missing or 0 becomes 30 before the division, the
  divisor is not 0, and the page size is an integer, at least 1.
\<close>

theorem calculateDynamicPageSize_division_safe:
  "(current_api d = None \<longrightarrow>
      computed (calculateDynamicPageSize d) = None
      \<and> console (calculateDynamicPageSize d) = [Grid_API_not_available_yet])
   \<and> (current_api d = Some a \<longrightarrow>
      (\<exists>l n. computed (calculateDynamicPageSize d) = Some l
        \<and> containerHeight l =
            (case current_clientHeight d of None \<Rightarrow> 400 | Some h \<Rightarrow> if h = 0 then 400 else h)
        \<and> rowHeight l = (case sizes_rowHeight a of None \<Rightarrow> 30 | Some r \<Rightarrow> if r = 0 then 30 else r)
        \<and> rowHeight l \<noteq> 0
        \<and> newPageSize l = Num n \<and> 1 \<le> n
        \<and> n = max 1 \<lfloor>rat_of_int (containerHeight l - 50) / rat_of_int (rowHeight l)\<rfloor>))"
proof -
  have none: "current_api d = None \<Longrightarrow>
      computed (calculateDynamicPageSize d) = None
      \<and> console (calculateDynamicPageSize d) = [Grid_API_not_available_yet]"
    by (simp add: calculateDynamicPageSize_def)
  have some: "\<exists>l n. computed (calculateDynamicPageSize d) = Some l
        \<and> containerHeight l =
            (case current_clientHeight d of None \<Rightarrow> 400 | Some h \<Rightarrow> if h = 0 then 400 else h)
        \<and> rowHeight l = (case sizes_rowHeight a of None \<Rightarrow> 30 | Some r \<Rightarrow> if r = 0 then 30 else r)
        \<and> rowHeight l \<noteq> 0
        \<and> newPageSize l = Num n \<and> 1 \<le> n
        \<and> n = max 1 \<lfloor>rat_of_int (containerHeight l - 50) / rat_of_int (rowHeight l)\<rfloor>"
    if a: "current_api d = Some a"
  proof -
    define ch where "ch = or_default (current_clientHeight d) 400"
    define rh where "rh = or_default (sizes_rowHeight a) 30"
    let ?l = "\<lparr>containerHeight = ch, rowHeight = rh, headerHeight = 50, availableHeight = ch - 50,
      newPageSize = Num (max 1 ((ch - 50) div rh))\<rparr>"
    have l: "computed (calculateDynamicPageSize d) = Some ?l"
      using computed_available [OF a] by (simp add: ch_def rh_def)
    have c: "ch = (case current_clientHeight d of None \<Rightarrow> 400 | Some h \<Rightarrow> if h = 0 then 400 else h)"
      by (simp add: ch_def or_default_def)
    have r: "rh = (case sizes_rowHeight a of None \<Rightarrow> 30 | Some r \<Rightarrow> if r = 0 then 30 else r)"
      by (simp add: rh_def or_default_def)
    have nz: "rh \<noteq> 0"
      unfolding rh_def by (rule or_default_nonzero) simp
    have f: "max 1 ((ch - 50) div rh) = max 1 \<lfloor>rat_of_int (ch - 50) / rat_of_int rh\<rfloor>"
      by (simp only: floor_divide_of_int_eq)
    have "computed (calculateDynamicPageSize d) = Some ?l
        \<and> containerHeight ?l =
            (case current_clientHeight d of None \<Rightarrow> 400 | Some h \<Rightarrow> if h = 0 then 400 else h)
        \<and> rowHeight ?l = (case sizes_rowHeight a of None \<Rightarrow> 30 | Some r \<Rightarrow> if r = 0 then 30 else r)
        \<and> rowHeight ?l \<noteq> 0
        \<and> newPageSize ?l = Num (max 1 ((ch - 50) div rh)) \<and> 1 \<le> max 1 ((ch - 50) div rh)
        \<and> max 1 ((ch - 50) div rh) =
            max 1 \<lfloor>rat_of_int (containerHeight ?l - 50) / rat_of_int (rowHeight ?l)\<rfloor>"
      using l c r nz f by simp
    then show ?thesis by blast
  qed
  from none some show ?thesis by blast
qed

theorem calculateDynamicPageSize_division_safe_witness:
  "computed (calculateDynamicPageSize \<lparr>rowData = ([]::unit list), gridRef = None, containerRef = None\<rparr>) = None
   \<and> (\<exists>l. computed (calculateDynamicPageSize
        \<lparr>rowData = ([]::unit list), gridRef = Some \<lparr>api = Some \<lparr>sizes_rowHeight = Some 0, pagination_pageSize = 10\<rparr>\<rparr>,
          containerRef = None\<rparr>) = Some l
      \<and> containerHeight l = 400 \<and> rowHeight l = 30 \<and> newPageSize l = Num 11)"
proof -
  let ?d0 = "\<lparr>rowData = ([]::unit list), gridRef = None, containerRef = None\<rparr>"
  let ?a = "\<lparr>sizes_rowHeight = Some 0, pagination_pageSize = 10\<rparr>"
  let ?d1 = "\<lparr>rowData = ([]::unit list), gridRef = Some \<lparr>api = Some ?a\<rparr>, containerRef = None\<rparr>"
  have api0: "current_api ?d0 = None"
    by (simp add: current_api_def)
  have first: "computed (calculateDynamicPageSize ?d0) = None"
    using calculateDynamicPageSize_division_safe [of ?d0, THEN conjunct1, THEN mp, OF api0]
    by (rule conjunct1)
  have api1: "current_api ?d1 = Some ?a"
    by (simp add: current_api_def)
  note calculateDynamicPageSize_division_safe [of ?d1 ?a, THEN conjunct2, THEN mp, OF api1]
  then obtain l n where l: "computed (calculateDynamicPageSize ?d1) = Some l"
    and c: "containerHeight l =
        (case current_clientHeight ?d1 of None \<Rightarrow> 400 | Some h \<Rightarrow> if h = 0 then 400 else h)"
    and r: "rowHeight l = (case sizes_rowHeight ?a of None \<Rightarrow> 30 | Some r \<Rightarrow> if r = 0 then 30 else r)"
    and p: "newPageSize l = Num n"
    and n: "n = max 1 \<lfloor>rat_of_int (containerHeight l - 50) / rat_of_int (rowHeight l)\<rfloor>"
    by blast
  have c': "containerHeight l = 400"
    using c by (simp add: current_clientHeight_def)
  have r': "rowHeight l = 30"
    using r by simp
  have "\<lfloor>rat_of_int (400 - 50) / rat_of_int 30\<rfloor> = 11"
    by (simp add: floor_eq_iff)
  with n have "n = 11"
    unfolding c' r' by simp
  with l c' r' p first show ?thesis
    by simp
qed

section \<open>The renderers\<close>

text \<open>
  C8. For a boolean value the isActive renderer shows \<open>Active\<close> for true and \<open>Inactive\<close>
  for false, and nothing else; the two strings differ, and the column's value formatter
  gives the same string. The output is a function of the boolean alone.
\<close>

theorem IsActiveCellRenderer_two_states:
  "children (IsActiveCellRenderer True) = [''Active'']
   \<and> children (IsActiveCellRenderer False) = [''Inactive'']
   \<and> textContent (IsActiveCellRenderer b) = (if b then ''Active'' else ''Inactive'')
   \<and> isActive_valueFormatter b = textContent (IsActiveCellRenderer b)
   \<and> (textContent (IsActiveCellRenderer b) = ''Active'' \<or> textContent (IsActiveCellRenderer b) = ''Inactive'')
   \<and> textContent (IsActiveCellRenderer True) \<noteq> textContent (IsActiveCellRenderer False)"
  by (simp add: IsActiveCellRenderer_def isActive_valueFormatter_def textContent_def)

text \<open>
  C5. The manager renderer and the manager value formatter show the placeholder \<open>None\<close>
  for \<open>null\<close> and every string unchanged.
\<close>

theorem ManagerCellRenderer_placeholder:
  "children (ManagerCellRenderer None) = [''None'']
   \<and> children (ManagerCellRenderer (Some s)) = [s]
   \<and> textContent (ManagerCellRenderer None) = ''None''
   \<and> textContent (ManagerCellRenderer (Some s)) = s
   \<and> manager_valueFormatter None = ''None''
   \<and> manager_valueFormatter (Some s) = s"
  by (simp add: ManagerCellRenderer_def manager_valueFormatter_def textContent_def)

text \<open>
  C3. The skills renderer. A value that is no array, and the empty array, render the one
  placeholder \<open>No skills\<close>. An array of one to three skills renders one tag for each, in
  order, with the skill as its \<open>title\<close>; the tag's label is the skill itself when it has
  at most 15 characters, and its first 15 characters followed by \<open>...\<close> otherwise (the
  tag's second child is the space after the label). An array of more than three skills
  renders the tags of its first three, then the text \<open>+N more\<close> with \<open>N\<close> the decimal
  of the length minus 3.
\<close>

theorem SkillsCellRenderer_cases:
  "map children (SkillsCellRenderer NotArray) = [[''No skills'']]
   \<and> map children (SkillsCellRenderer (Array [])) = [[''No skills'']]
   \<and> (0 < length xs \<and> length xs \<le> 3 \<longrightarrow>
        map title (SkillsCellRenderer (Array xs)) = map Some xs
        \<and> map children (SkillsCellRenderer (Array xs)) =
            map (\<lambda>s. [if length s \<le> 15 then s else take 15 s @ ''...'', '' '']) xs)
   \<and> (3 < length xs \<longrightarrow>
        length (SkillsCellRenderer (Array xs)) = 4
        \<and> map title (take 3 (SkillsCellRenderer (Array xs))) = map Some (take 3 xs)
        \<and> map children (take 3 (SkillsCellRenderer (Array xs))) =
            map (\<lambda>s. [if length s \<le> 15 then s else take 15 s @ ''...'', '' '']) (take 3 xs)
        \<and> map textContent (drop 3 (SkillsCellRenderer (Array xs))) =
            [''+'' @ string_of_nat (length xs - 3) @ '' more'']
        \<and> nat_of_digits (string_of_nat (length xs - 3)) = length xs - 3)"
proof -
  have label: "children (skill_tag s) = [if length s \<le> 15 then s else take 15 s @ ''...'', '' '']" for s
    by (simp add: skill_tag_def)
  have ttl: "title (skill_tag s) = Some s" for s
    by (simp add: skill_tag_def)
  have few: "SkillsCellRenderer (Array xs) = map skill_tag xs"
    if "0 < length xs" and "length xs \<le> 3"
    using that by (simp add: SkillsCellRenderer_def maxTags_def)
  have many: "SkillsCellRenderer (Array xs) = map skill_tag (take 3 xs) @ [more_tag (length xs - 3)]"
    if "3 < length xs"
    using that by (auto simp: SkillsCellRenderer_def maxTags_def)
  have more: "textContent (more_tag n) = ''+'' @ string_of_nat n @ '' more''" for n
    by (simp add: more_tag_def textContent_def del: string_of_nat.simps)
  have c1: "map children (SkillsCellRenderer NotArray) = [[''No skills'']]"
    by (simp add: SkillsCellRenderer_def no_skills_def)
  have c2: "map children (SkillsCellRenderer (Array [])) = [[''No skills'']]"
    by (simp add: SkillsCellRenderer_def no_skills_def)
  have c3: "map title (SkillsCellRenderer (Array xs)) = map Some xs
        \<and> map children (SkillsCellRenderer (Array xs)) =
            map (\<lambda>s. [if length s \<le> 15 then s else take 15 s @ ''...'', '' '']) xs"
    if "0 < length xs \<and> length xs \<le> 3"
    using that by (simp add: few label ttl comp_def)
  have c4: "length (SkillsCellRenderer (Array xs)) = 4
        \<and> map title (take 3 (SkillsCellRenderer (Array xs))) = map Some (take 3 xs)
        \<and> map children (take 3 (SkillsCellRenderer (Array xs))) =
            map (\<lambda>s. [if length s \<le> 15 then s else take 15 s @ ''...'', '' '']) (take 3 xs)
        \<and> map textContent (drop 3 (SkillsCellRenderer (Array xs))) =
            [''+'' @ string_of_nat (length xs - 3) @ '' more'']
        \<and> nat_of_digits (string_of_nat (length xs - 3)) = length xs - 3"
    if "3 < length xs"
  proof -
    have len: "length (map skill_tag (take 3 xs)) = 3"
      using that by simp
    show ?thesis
      unfolding many [OF that]
      using len by (simp add: label ttl more comp_def nat_of_digits_string_of_nat
          del: string_of_nat.simps)
  qed
  from c1 c2 c3 c4 show ?thesis by blast
qed

theorem SkillsCellRenderer_cases_witness:
  "map children (SkillsCellRenderer (Array [''SQL'', ''Kubernetes Administration''])) =
     [[''SQL'', '' ''], [''Kubernetes Admi...'', '' '']]
   \<and> map textContent (drop 3 (SkillsCellRenderer (Array [''a'', ''b'', ''c'', ''d'', ''e'']))) =
     [''+2 more'']"
proof -
  have few: "map children (SkillsCellRenderer (Array [''SQL'', ''Kubernetes Administration''])) =
     [[''SQL'', '' ''], [''Kubernetes Admi...'', '' '']]"
    using SkillsCellRenderer_cases [of "[''SQL'', ''Kubernetes Administration'']"]
    by simp
  have many: "map textContent (drop 3 (SkillsCellRenderer (Array [''a'', ''b'', ''c'', ''d'', ''e'']))) =
     [''+2 more'']"
    using SkillsCellRenderer_cases [of "[''a'', ''b'', ''c'', ''d'', ''e'']"]
    by simp
  from few many show ?thesis by simp
qed

text \<open>
  C4. On the skills \<open>Python Programming\<close>, \<open>SQL\<close>, \<open>Leadership\<close>, \<open>Docker\<close> the renderer
  shows three tags and the suffix \<open>+1 more\<close>. The first tag's label is the first 15
  characters of \<open>Python Programming\<close> and the ellipsis, \<open>Python Programm...\<close>; the string
  \<open>Python Programmin...\<close>, which keeps 17 characters, is no text of the output.
\<close>

theorem SkillsCellRenderer_scenario:
  "map children
     (SkillsCellRenderer (Array [''Python Programming'', ''SQL'', ''Leadership'', ''Docker''])) =
     [[''Python Programm...'', '' ''], [''SQL'', '' ''], [''Leadership'', '' ''],
      [''+'', ''1'', '' more'']]
   \<and> map title
     (SkillsCellRenderer (Array [''Python Programming'', ''SQL'', ''Leadership'', ''Docker''])) =
     [Some ''Python Programming'', Some ''SQL'', Some ''Leadership'', None]
   \<and> map textContent
     (drop 3 (SkillsCellRenderer (Array [''Python Programming'', ''SQL'', ''Leadership'', ''Docker'']))) =
     [''+1 more'']"
  by (simp add: SkillsCellRenderer_def maxTags_def skill_tag_def more_tag_def textContent_def)

theorem SkillsCellRenderer_scenario_counterexample:
  "''Python Programmin...'' \<notin> set (concat (map children
     (SkillsCellRenderer (Array [''Python Programming'', ''SQL'', ''Leadership'', ''Docker'']))))
   \<and> ''Python Programmin...'' \<notin> set (map textContent
     (SkillsCellRenderer (Array [''Python Programming'', ''SQL'', ''Leadership'', ''Docker''])))
   \<and> length ''Python Programmin'' = 17
   \<and> take 15 ''Python Programming'' = ''Python Programm''"
  by (simp add: SkillsCellRenderer_def maxTags_def skill_tag_def more_tag_def textContent_def)

section \<open>The value formatters\<close>

text \<open>
  C6, as the code has it. On a number neither formatter throws: the salary formatter
  gives \<open>$\<close> and the number's \<open>toLocaleString()\<close>, the rating formatter its
  \<open>toFixed(1)\<close>. Neither has a fallback for another type: on \<open>null\<close> and on an absent
  value both throw a \<open>TypeError\<close>, and the rating formatter throws it on a string and on
  a boolean too; on those two the salary formatter returns \<open>$\<close> and the value's own
  text.
\<close>

theorem numeric_formatters_by_type:
  "salary_valueFormatter num_toLocaleString (JSNumber n) = Inr (''$'' @ num_toLocaleString n)
   \<and> salary_valueFormatter num_toLocaleString (JSString s) = Inr (''$'' @ s)
   \<and> salary_valueFormatter num_toLocaleString (JSBoolean b) =
       Inr (''$'' @ (if b then ''true'' else ''false''))
   \<and> salary_valueFormatter num_toLocaleString JSNull = Inl TypeError
   \<and> salary_valueFormatter num_toLocaleString JSUndefined = Inl TypeError
   \<and> performanceRating_valueFormatter num_toFixed1 (JSNumber n) = Inr (num_toFixed1 n)
   \<and> performanceRating_valueFormatter num_toFixed1 (JSString s) = Inl TypeError
   \<and> performanceRating_valueFormatter num_toFixed1 (JSBoolean b) = Inl TypeError
   \<and> performanceRating_valueFormatter num_toFixed1 JSNull = Inl TypeError
   \<and> performanceRating_valueFormatter num_toFixed1 JSUndefined = Inl TypeError"
  by (simp add: salary_valueFormatter_def performanceRating_valueFormatter_def)

text \<open>The claim as the specification has it fails on \<open>null\<close> (both formatters) and on a
  string (the rating formatter): the call throws.\<close>

theorem numeric_formatters_counterexample:
  "salary_valueFormatter string_of_nat JSNull = Inl TypeError
   \<and> performanceRating_valueFormatter example_toFixed1 JSNull = Inl TypeError
   \<and> performanceRating_valueFormatter example_toFixed1 (JSString ''4.5'') = Inl TypeError"
  by (simp add: salary_valueFormatter_def performanceRating_valueFormatter_def)

text \<open>
  C7, as the code has it. The hireDate formatter never throws. A string the host parses
  is rendered as the host's short date of the parsed date; a string the host cannot
  parse is rendered as the fixed text \<open>Invalid Date\<close>, not as the string itself.
\<close>

theorem hireDate_valueFormatter_cases:
  "(date_parse s = Some t \<longrightarrow>
      hireDate_valueFormatter date_parse date_format s = date_format t)
   \<and> (date_parse s = None \<longrightarrow>
      hireDate_valueFormatter date_parse date_format s = ''Invalid Date'')"
  by (simp add: hireDate_valueFormatter_def new_Date_def toLocaleDateString_def)

theorem hireDate_valueFormatter_cases_witness:
  "hireDate_valueFormatter example_date_parse example_date_format ''2021-03-15'' = ''3/15/2021''
   \<and> hireDate_valueFormatter example_date_parse example_date_format ''15th of March'' =
       ''Invalid Date''"
proof -
  have p: "example_date_parse ''2021-03-15'' = Some (2021, 3, 15)"
    by (simp add: example_date_parse_def)
  have q: "example_date_parse ''15th of March'' = None"
    by (simp add: example_date_parse_def)
  have f: "example_date_format (2021, 3, 15) = ''3/15/2021''"
    by (simp add: example_date_format_def)
  have "hireDate_valueFormatter example_date_parse example_date_format ''2021-03-15'' =
      example_date_format (2021, 3, 15)"
    using hireDate_valueFormatter_cases
      [of example_date_parse "''2021-03-15''" "(2021, 3, 15)" example_date_format] p
    by blast
  moreover have "hireDate_valueFormatter example_date_parse example_date_format ''15th of March'' =
      ''Invalid Date''"
    using hireDate_valueFormatter_cases
      [of example_date_parse "''15th of March''" _ example_date_format] q
    by blast
  ultimately show ?thesis
    by (simp only: f)
qed

theorem hireDate_valueFormatter_counterexample:
  "example_date_parse ''15th of March'' = None
   \<and> hireDate_valueFormatter example_date_parse example_date_format ''15th of March'' \<noteq>
       ''15th of March''"
  by (simp add: hireDate_valueFormatter_def new_Date_def toLocaleDateString_def
      example_date_parse_def)

end
